theory Spec2Isabelle
  imports Main "HOL-Library.Char_ord" "HOL-Library.List_Lexorder" "HOL-Library.Product_Lexorder"
begin

section \<open>Exceptions and the clock\<close>

text \<open>
  Exceptions of the Python code are values. \<open>ValueError\<close> carries its message;
  \<open>DatabaseError\<close> stands for any \<open>sqlite3\<close> exception (I/O failure, corruption,
  "database is locked"); \<open>OSError\<close> for any failure of a file operation.
\<close>

datatype exn = ValueError string | DatabaseError | OSError

text \<open>
  \<open>datetime.utcnow()\<close> is an input of every operation that reads the clock. Only valid
  datetimes occur (\<open>valid_datetime\<close>), so each field prints with its fixed width.
\<close>

record datetime =
  year :: int
  month :: int
  day :: int
  hour :: int
  minute :: int
  second :: int
  microsecond :: int

definition is_leap :: "int \<Rightarrow> bool" where
  "is_leap y = (y mod 4 = 0 \<and> (y mod 100 \<noteq> 0 \<or> y mod 400 = 0))"

definition days_in_month :: "int \<Rightarrow> int \<Rightarrow> int" where
  "days_in_month y m =
     (if m = 2 then (if is_leap y then 29 else 28)
      else if m = 4 \<or> m = 6 \<or> m = 9 \<or> m = 11 then 30 else 31)"


definition digit :: "int \<Rightarrow> char" where
  "digit n = char_of (48 + n mod 10)"

definition d2 :: "int \<Rightarrow> string" where
  "d2 n = [digit (n div 10), digit n]"

definition d4 :: "int \<Rightarrow> string" where
  "d4 n = [digit (n div 1000), digit (n div 100), digit (n div 10), digit n]"

definition d6 :: "int \<Rightarrow> string" where
  "d6 n = [digit (n div 100000), digit (n div 10000), digit (n div 1000),
           digit (n div 100), digit (n div 10), digit n]"

text \<open>\<open>datetime.isoformat()\<close>: the fraction is printed only when it is not zero.\<close>

definition isoformat :: "datetime \<Rightarrow> string" where
  "isoformat t =
     d4 (year t) @ ''-'' @ d2 (month t) @ ''-'' @ d2 (day t) @ ''T'' @
     d2 (hour t) @ '':'' @ d2 (minute t) @ '':'' @ d2 (second t) @
     (if microsecond t = 0 then [] else ''.'' @ d6 (microsecond t))"

text \<open>\<open>_get_timestamp\<close> of all three classes.\<close>

definition get_timestamp :: "datetime \<Rightarrow> string" where
  "get_timestamp now = isoformat now @ ''Z''"

text \<open>\<open>dt.replace(day=d)\<close> raises \<open>ValueError\<close> when \<open>d\<close> is no day of the month.\<close>

definition replace_day :: "datetime \<Rightarrow> int \<Rightarrow> exn + datetime" where
  "replace_day t d =
     (if 1 \<le> d \<and> d \<le> days_in_month (year t) (month t) then Inr (t\<lparr>day := d\<rparr>)
      else Inl (ValueError ''day is out of range for month''))"

definition midnight :: "datetime \<Rightarrow> datetime" where
  "midnight t = t\<lparr>hour := 0, minute := 0, second := 0, microsecond := 0\<rparr>"


section \<open>The persistent queue (telemetry_queue.py)\<close>

datatype QueueItemType = PORTAL_SUBMISSION | ANALYTICS_RECORD

fun type_value :: "QueueItemType \<Rightarrow> int" where
  "type_value PORTAL_SUBMISSION = 1"
| "type_value ANALYTICS_RECORD = 2"


text \<open>
  A row of table \<open>queue_items\<close>; \<open>data\<close> is the JSON text of the record and
  \<open>created_at\<close> the timestamp text, which SQLite compares bytewise.
\<close>

record row =
  item_id :: int
  item_type :: int
  priority :: int
  data :: string
  created_at :: string
  retry_count :: int
  last_retry_at :: "string option"

text \<open>
  The database: the rows in rowid order and the \<open>AUTOINCREMENT\<close> counter, the largest id
  ever assigned (table \<open>sqlite_sequence\<close>).
\<close>

record db =
  rows :: "row list"
  seq :: int

definition MAX_ANALYTICS_RECORDS :: int where
  "MAX_ANALYTICS_RECORDS = 10000"

definition MAX_SUBMISSIONS :: int where
  "MAX_SUBMISSIONS = 1000"

definition empty_db :: db where
  "empty_db = \<lparr>rows = [], seq = 0\<rparr>"

text \<open>
  Every SQLite access of a method may raise; whether it does is an input of the model (a
  flag \<open>\<dots>_fails\<close> per access).

  \<open>INSERT INTO queue_items (item_type, priority, data, created_at)\<close>: the id is the
  counter plus one, \<open>retry_count\<close> takes its default.
\<close>

definition insert_row :: "int \<Rightarrow> string \<Rightarrow> string \<Rightarrow> db \<Rightarrow> db" where
  "insert_row tv payload ts d =
     \<lparr>rows = rows d @ [\<lparr>item_id = seq d + 1, item_type = tv, priority = tv, data = payload,
                         created_at = ts, retry_count = 0, last_retry_at = None\<rparr>],
      seq = seq d + 1\<rparr>"

definition count_type :: "int \<Rightarrow> db \<Rightarrow> int" where
  "count_type tv d = int (length (filter (\<lambda>r. item_type r = tv) (rows d)))"

text \<open>\<open>_get_analytics_count\<close>, \<open>_get_submission_count\<close>: 0 when the query raises.\<close>

definition get_analytics_count :: "bool \<Rightarrow> db \<Rightarrow> int" where
  "get_analytics_count count_fails d =
     (if count_fails then 0 else count_type (type_value ANALYTICS_RECORD) d)"

definition get_submission_count :: "bool \<Rightarrow> db \<Rightarrow> int" where
  "get_submission_count count_fails d =
     (if count_fails then 0 else count_type (type_value PORTAL_SUBMISSION) d)"

text \<open>
  \<open>SELECT id \<dots> WHERE item_type = ? ORDER BY created_at ASC LIMIT 1\<close>: the sort is
  stable over the rowid order.
\<close>

definition oldest_analytics :: "db \<Rightarrow> row option" where
  "oldest_analytics d =
     (case sort_key created_at
             (filter (\<lambda>r. item_type r = type_value ANALYTICS_RECORD) (rows d)) of
        [] \<Rightarrow> None
      | r # _ \<Rightarrow> Some r)"

text \<open>\<open>_drop_oldest_analytics\<close>: an exception is logged and swallowed.\<close>

definition drop_oldest_analytics :: "bool \<Rightarrow> db \<Rightarrow> db" where
  "drop_oldest_analytics drop_fails d =
     (if drop_fails then d
      else case oldest_analytics d of
             None \<Rightarrow> d
           | Some r \<Rightarrow> d\<lparr>rows := filter (\<lambda>x. item_id x \<noteq> item_id r) (rows d)\<rparr>)"

text \<open>
  \<open>enqueue_analytics\<close>; \<open>record\<close> is the text \<open>json.dumps(record)\<close>. The exception of the
  insert is logged and raised again.
\<close>

definition enqueue_analytics ::
  "bool \<Rightarrow> bool \<Rightarrow> bool \<Rightarrow> datetime \<Rightarrow> string \<Rightarrow> db \<Rightarrow> (exn + unit) \<times> db" where
  "enqueue_analytics count_fails drop_fails insert_fails now record d =
     (let d1 = (if get_analytics_count count_fails d \<ge> MAX_ANALYTICS_RECORDS
                then drop_oldest_analytics drop_fails d else d)
      in if insert_fails then (Inl DatabaseError, d1)
         else (Inr (), insert_row (type_value ANALYTICS_RECORD) record (get_timestamp now) d1))"

text \<open>\<open>enqueue_submission\<close>: the \<open>ValueError\<close> is raised inside the \<open>try\<close> and raised again.\<close>

definition enqueue_submission ::
  "bool \<Rightarrow> bool \<Rightarrow> datetime \<Rightarrow> string \<Rightarrow> db \<Rightarrow> (exn + unit) \<times> db" where
  "enqueue_submission count_fails insert_fails now submission d =
     (if get_submission_count count_fails d \<ge> MAX_SUBMISSIONS
      then (Inl (ValueError ''Submission queue full''), d)
      else if insert_fails then (Inl DatabaseError, d)
      else (Inr (), insert_row (type_value PORTAL_SUBMISSION) submission (get_timestamp now) d))"

text \<open>
  \<open>SELECT id, item_type, data \<dots> ORDER BY priority ASC, created_at ASC LIMIT ?\<close>.
  A negative \<open>LIMIT\<close> means no limit in SQLite.
\<close>

definition select_batch :: "int \<Rightarrow> row list \<Rightarrow> row list" where
  "select_batch batch_size rs =
     (let ordered = sort_key (\<lambda>r. (priority r, created_at r)) rs
      in if batch_size < 0 then ordered else take (nat batch_size) ordered)"



text \<open>\<open>mark_synced\<close>: nothing to do for no ids; an exception is logged and swallowed.\<close>

definition mark_synced :: "bool \<Rightarrow> int list \<Rightarrow> db \<Rightarrow> (exn + unit) \<times> db" where
  "mark_synced delete_fails item_ids d =
     (if item_ids = [] then (Inr (), d)
      else if delete_fails then (Inr (), d)
      else (Inr (), d\<lparr>rows := filter (\<lambda>r. item_id r \<notin> set item_ids) (rows d)\<rparr>))"

text \<open>\<open>mark_failed\<close>: likewise.\<close>

definition mark_failed :: "bool \<Rightarrow> datetime \<Rightarrow> int list \<Rightarrow> db \<Rightarrow> (exn + unit) \<times> db" where
  "mark_failed update_fails now item_ids d =
     (if item_ids = [] then (Inr (), d)
      else if update_fails then (Inr (), d)
      else (Inr (), d\<lparr>rows := map (\<lambda>r. if item_id r \<in> set item_ids
                                         then r\<lparr>retry_count := retry_count r + 1,
                                                last_retry_at := Some (get_timestamp now)\<rparr>
                                         else r) (rows d)\<rparr>))"

text \<open>
  \<open>cleanup_old_records\<close>: the cutoff is today's midnight with its day of the month
  replaced by \<open>day - days\<close>; the \<open>ValueError\<close> of \<open>replace\<close> and every database
  exception give 0.
\<close>

definition cutoff_str :: "datetime \<Rightarrow> int \<Rightarrow> exn + string" where
  "cutoff_str now days =
     (case replace_day (midnight now) (day (midnight now) - days) of
        Inl e \<Rightarrow> Inl e
      | Inr cutoff_date \<Rightarrow> Inr (isoformat cutoff_date @ ''Z''))"

definition cleanup_old_records :: "bool \<Rightarrow> datetime \<Rightarrow> int \<Rightarrow> db \<Rightarrow> int \<times> db" where
  "cleanup_old_records delete_fails now days d =
     (case cutoff_str now days of
        Inl e \<Rightarrow> (0, d)
      | Inr c \<Rightarrow>
          if delete_fails then (0, d)
          else (int (length (filter (\<lambda>r. created_at r < c) (rows d))),
                d\<lparr>rows := filter (\<lambda>r. \<not> created_at r < c) (rows d)\<rparr>))"

text \<open>
  What the schema and the two inserts guarantee of every stored row: ids are unique and
  never above the counter, and \<open>priority\<close> is the value of \<open>item_type\<close>.
\<close>

definition queue_inv :: "db \<Rightarrow> bool" where
  "queue_inv d =
     (distinct (map item_id (rows d)) \<and>
      (\<forall>r \<in> set (rows d). item_id r \<le> seq d \<and> priority r = item_type r))"

section \<open>Device configuration (config.py)\<close>

text \<open>
  Strings are sequences of code points below 256. The event configuration is the
  dictionary the backend sends: the two keys the code reads, each absent (\<open>None\<close>) or
  present, and the rest of the dictionary as text.
\<close>

record configuration =
  cfg_config_version :: "int option"
  cfg_wifi_ssid :: "string option"
  cfg_rest :: string

record config =
  device_id :: "int option"
  device_serial :: "string option"
  device_token :: "string option"
  backend_url :: string
  heartbeat_interval :: int
  analytics_sync_interval :: int
  event_config :: "configuration option"
  config_version :: "int option"
  wifi_ssid :: "string option"

text \<open>\<open>Config.__init__\<close>, with the default backend URL as a parameter.\<close>

definition init_config :: "string \<Rightarrow> config" where
  "init_config url =
     \<lparr>device_id = None, device_serial = None, device_token = None, backend_url = url,
      heartbeat_interval = 60, analytics_sync_interval = 120, event_config = None,
      config_version = None, wifi_ssid = None\<rparr>"

text \<open>
  The files \<open>device.conf\<close> and \<open>config.json\<close> are written and removed but never read
  back by the operations below; their contents are not tracked, only whether the file
  operation raises.

  \<open>save_device_config\<close>: the exception is raised again.
\<close>

definition save_device_config :: "bool \<Rightarrow> config \<Rightarrow> exn + unit" where
  "save_device_config save_fails c = (if save_fails then Inl OSError else Inr ())"

text \<open>\<open>save_event_config\<close>: the fields are set after the file is in place.\<close>

definition save_event_config ::
  "bool \<Rightarrow> configuration \<Rightarrow> int \<Rightarrow> config \<Rightarrow> (exn + unit) \<times> config" where
  "save_event_config write_fails config_data version c =
     (if write_fails then (Inl OSError, c)
      else (Inr (), c\<lparr>event_config := Some config_data, config_version := Some version\<rparr>))"

text \<open>\<open>clear_event_config\<close>: an exception of \<open>exists\<close> or \<open>unlink\<close> is swallowed.\<close>

definition clear_event_config :: "bool \<Rightarrow> config \<Rightarrow> config" where
  "clear_event_config unlink_fails c =
     (if unlink_fails then c else c\<lparr>event_config := None, config_version := None\<rparr>)"

definition wipe_device_data :: "bool \<Rightarrow> bool \<Rightarrow> config \<Rightarrow> (exn + unit) \<times> config" where
  "wipe_device_data unlink_fails save_fails c =
     (let c1 = c\<lparr>device_token := None, device_id := None\<rparr>;
          c2 = clear_event_config unlink_fails c1
      in (save_device_config save_fails c2, c2))"

definition is_registered :: "config \<Rightarrow> bool" where
  "is_registered c = (device_token c \<noteq> None)"

definition is_assigned :: "config \<Rightarrow> bool" where
  "is_assigned c = (event_config c \<noteq> None)"

text \<open>
  \<open>get_serial_number\<close>: a stored serial that is not empty is returned; otherwise one is
  generated (from the CPU serial or at random: an input) and stored.
\<close>

definition get_serial_number :: "string \<Rightarrow> config \<Rightarrow> string \<times> config" where
  "get_serial_number generated c =
     (case device_serial c of
        Some s \<Rightarrow> if s \<noteq> [] then (s, c) else (generated, c\<lparr>device_serial := Some generated\<rparr>)
      | None \<Rightarrow> (generated, c\<lparr>device_serial := Some generated\<rparr>))"

section \<open>Canonical JSON and request signing (management_agent.py)\<close>

datatype json =
  JNull | JBool bool | JInt int | JFloat string | JStr string
  | JArr "json list" | JObj "(string \<times> json) list"

text \<open>
  A float carries its \<open>repr\<close>. A dictionary is the list of its items in insertion order,
  with distinct keys.
\<close>

definition dict_keys :: "json \<Rightarrow> string list" where
  "dict_keys j = (case j of JObj kvs \<Rightarrow> map fst kvs | _ \<Rightarrow> [])"

definition dict_get :: "json \<Rightarrow> string \<Rightarrow> json option" where
  "dict_get j k = (case j of JObj kvs \<Rightarrow> map_of kvs k | _ \<Rightarrow> None)"

text \<open>\<open>{**payload, key: v}\<close> for a key that \<open>payload\<close> may hold already.\<close>

definition dict_set :: "json \<Rightarrow> string \<Rightarrow> json \<Rightarrow> json" where
  "dict_set j k v =
     (case j of
        JObj kvs \<Rightarrow> if k \<in> fst ` set kvs
                    then JObj (map (\<lambda>(k', v'). if k' = k then (k', v) else (k', v')) kvs)
                    else JObj (kvs @ [(k, v)])
      | _ \<Rightarrow> j)"

definition dict_del :: "json \<Rightarrow> string \<Rightarrow> json" where
  "dict_del j k = (case j of JObj kvs \<Rightarrow> JObj (filter (\<lambda>(k', v'). k' \<noteq> k) kvs) | _ \<Rightarrow> j)"

definition hex_digit :: "nat \<Rightarrow> char" where
  "hex_digit n = (if n mod 16 < 10 then char_of (48 + n mod 16) else char_of (87 + n mod 16))"

text \<open>
  \<open>json.dumps\<close> with \<open>ensure_ascii\<close>: printable ASCII is kept, the quote and the
  backslash are escaped, the rest is a short escape or \<open>\u00XX\<close>.
\<close>

definition escape_char :: "char \<Rightarrow> string" where
  "escape_char c =
     (if c = CHR 0x22 then [CHR 0x5C, CHR 0x22]
      else if c = CHR 0x5C then [CHR 0x5C, CHR 0x5C]
      else if c = CHR 0x0A then [CHR 0x5C, CHR ''n'']
      else if c = CHR 0x0D then [CHR 0x5C, CHR ''r'']
      else if c = CHR 0x09 then [CHR 0x5C, CHR ''t'']
      else if c = CHR 0x08 then [CHR 0x5C, CHR ''b'']
      else if c = CHR 0x0C then [CHR 0x5C, CHR ''f'']
      else if 32 \<le> (of_char c :: nat) \<and> (of_char c :: nat) \<le> 126 then [c]
      else [CHR 0x5C, CHR ''u'', CHR ''0'', CHR ''0'',
            hex_digit (of_char c div 16), hex_digit (of_char c)])"

definition quote :: "string \<Rightarrow> string" where
  "quote s = [CHR 0x22] @ concat (map escape_char s) @ [CHR 0x22]"

fun dec :: "nat \<Rightarrow> string" where
  "dec n = (if n < 10 then [char_of (48 + n)] else dec (n div 10) @ [char_of (48 + n mod 10)])"

declare dec.simps [simp del]

definition int_repr :: "int \<Rightarrow> string" where
  "int_repr i = (if i < 0 then ''-'' @ dec (nat (- i)) else dec (nat i))"

fun join :: "string \<Rightarrow> string list \<Rightarrow> string" where
  "join sep [] = []"
| "join sep [x] = x"
| "join sep (x # y # ys) = x @ sep @ join sep (y # ys)"

text \<open>
  \<open>json.dumps(payload, sort_keys=True, separators=(',', ':'))\<close>: the items of every
  dictionary in the order of their keys, no space after a comma or a colon.
\<close>

fun dumps :: "json \<Rightarrow> string" where
  "dumps JNull = ''null''"
| "dumps (JBool b) = (if b then ''true'' else ''false'')"
| "dumps (JInt i) = int_repr i"
| "dumps (JFloat r) = r"
| "dumps (JStr s) = quote s"
| "dumps (JArr vs) = ''['' @ join '','' (map dumps vs) @ '']''"
| "dumps (JObj kvs) =
     ''{'' @ join '','' (map (\<lambda>kv. quote (fst kv) @ '':'' @ dumps (snd kv)) (sort_key fst kvs))
     @ ''}''"

text \<open>
  \<open>_sign_request\<close>. HMAC-SHA256 with a hexadecimal digest is a parameter
  \<open>hmac_sha256 key message\<close> of everything that signs.
\<close>

definition sign_request :: "(string \<Rightarrow> string \<Rightarrow> string) \<Rightarrow> config \<Rightarrow> json \<Rightarrow> exn + string" where
  "sign_request hmac_sha256 c payload =
     (case device_token c of
        None \<Rightarrow> Inl (ValueError ''No device token available'')
      | Some t \<Rightarrow>
          if t = [] then Inl (ValueError ''No device token available'')
          else Inr (hmac_sha256 t (dumps payload)))"

section \<open>Applying a radio name (management_agent.py)\<close>

text \<open>
  The outcomes of the three file accesses and of \<open>systemctl restart hostapd\<close> are inputs.
  \<open>open(path, 'w')\<close> that raises \<open>PermissionError\<close> leaves the file as it is; any other
  exception of a write leaves it with some content, carried by \<open>WriteError\<close>.
\<close>

datatype read_outcome = ReadOk | FileNotFoundError | ReadPermissionError | ReadError

datatype write_outcome = WriteOk | WritePermissionError | WriteError string

datatype restart_outcome = Returncode int | TimeoutExpired | RestartError

record ssid_env =
  read_result :: read_outcome
  write_result :: write_outcome
  restart_result :: restart_outcome
  rollback_result :: write_outcome

text \<open>
  Reading in text mode turns \<open>\r\n\<close> and a lone \<open>\r\<close> into \<open>\n\<close>; \<open>readlines\<close> cuts
  after every \<open>\n\<close>.
\<close>

fun universal_newlines :: "string \<Rightarrow> string" where
  "universal_newlines (c # c' # cs) =
     (if c = CHR 0x0D \<and> c' = CHR 0x0A then CHR 0x0A # universal_newlines cs
      else if c = CHR 0x0D then CHR 0x0A # universal_newlines (c' # cs)
      else c # universal_newlines (c' # cs))"
| "universal_newlines [c] = (if c = CHR 0x0D then [CHR 0x0A] else [c])"
| "universal_newlines [] = []"

fun keepends :: "string \<Rightarrow> string list" where
  "keepends [] = []"
| "keepends (c # cs) =
     (if c = CHR 0x0A then [c] # keepends cs
      else case keepends cs of [] \<Rightarrow> [[c]] | l # ls \<Rightarrow> (c # l) # ls)"

definition readlines :: "string \<Rightarrow> string list" where
  "readlines content = keepends (universal_newlines content)"

text \<open>\<open>f.writelines(lines)\<close> on a file opened with \<open>'w'\<close>: the new content.\<close>

definition writelines :: "string list \<Rightarrow> string" where
  "writelines ls = concat ls"

text \<open>\<open>str.isspace\<close> on code points below 256, \<open>str.strip\<close>, \<open>str.startswith\<close>.\<close>

definition isspace :: "char \<Rightarrow> bool" where
  "isspace c =
     (let n = (of_char c :: nat)
      in (9 \<le> n \<and> n \<le> 13) \<or> (28 \<le> n \<and> n \<le> 32) \<or> n = 133 \<or> n = 160)"

definition strip :: "string \<Rightarrow> string" where
  "strip s = rev (dropWhile isspace (rev (dropWhile isspace s)))"

definition startswith :: "string \<Rightarrow> string \<Rightarrow> bool" where
  "startswith s p = (take (length p) s = p)"

definition is_ssid_line :: "string \<Rightarrow> bool" where
  "is_ssid_line line = startswith (strip line) ''ssid=''"

definition replace_ssid :: "string \<Rightarrow> string list \<Rightarrow> string list" where
  "replace_ssid ssid ls =
     map (\<lambda>line. if is_ssid_line line then ''ssid='' @ ssid @ [CHR 0x0A] else line) ls"

text \<open>
  The rollback of the three restart-failure branches: attempted when \<open>original_lines\<close> is
  not empty, its own exception logged and swallowed.
\<close>

definition rollback :: "write_outcome \<Rightarrow> string list \<Rightarrow> string \<Rightarrow> string" where
  "rollback outcome original_lines current =
     (if original_lines \<noteq> [] then
        (case outcome of
           WriteOk \<Rightarrow> writelines original_lines
         | WritePermissionError \<Rightarrow> current
         | WriteError partial \<Rightarrow> partial)
      else current)"

text \<open>
  \<open>apply_ssid_configuration\<close> with the new name \<open>ssid\<close>: the result and the content of
  \<open>hostapd.conf\<close> afterwards.
  \<open>previous_ssid\<close> and \<open>_report_configuration_error\<close> only feed the log.
\<close>

definition apply_ssid_configuration :: "ssid_env \<Rightarrow> string \<Rightarrow> string \<Rightarrow> bool \<times> string" where
  "apply_ssid_configuration env ssid file =
     (case read_result env of
        FileNotFoundError \<Rightarrow> (False, file)
      | ReadPermissionError \<Rightarrow> (False, file)
      | ReadError \<Rightarrow> (False, file)
      | ReadOk \<Rightarrow>
          (let original_lines = readlines file;
               ssid_found = (\<exists>line \<in> set original_lines. is_ssid_line line);
               new_lines = replace_ssid ssid original_lines
           in if \<not> ssid_found then (False, file)
              else case write_result env of
                     WritePermissionError \<Rightarrow> (False, file)
                   | WriteError partial \<Rightarrow> (False, partial)
                   | WriteOk \<Rightarrow>
                       (case restart_result env of
                          Returncode rc \<Rightarrow>
                            if rc = 0 then (True, writelines new_lines)
                            else (False, rollback (rollback_result env) original_lines
                                           (writelines new_lines))
                        | TimeoutExpired \<Rightarrow>
                            (False, rollback (rollback_result env) original_lines
                                      (writelines new_lines))
                        | RestartError \<Rightarrow>
                            (False, rollback (rollback_result env) original_lines
                                      (writelines new_lines)))))"

section \<open>The management agent (management_agent.py)\<close>

text \<open>
  An HTTP exchange either raises (timeout, connection error) or gives a status code and
  the body as \<open>response.json()\<close> parses it (\<open>None\<close>: it raises).
\<close>

datatype 'a http_result = ConnectionError | Response int "'a option"

text \<open>
  \<open>fetch_configuration\<close>; the body of the answer is its \<open>configuration\<close> entry, \<open>None\<close>
  when absent or falsy.
\<close>

definition fetch_configuration ::
  "configuration option http_result \<Rightarrow> config \<Rightarrow> configuration option" where
  "fetch_configuration get_result c =
     (if \<not> is_registered c then None
      else case get_result of
             ConnectionError \<Rightarrow> None
           | Response code body \<Rightarrow>
               if code = 200 then (case body of None \<Rightarrow> None | Some conf \<Rightarrow> conf)
               else None)"

text \<open>
  \<open>cache_configuration\<close>: \<open>config.get('config_version', 1)\<close>, then the test
  \<open>self.config.config_version and version <= self.config.config_version\<close>, in which a
  cached version 0 is falsy.
\<close>

definition cache_configuration :: "bool \<Rightarrow> configuration \<Rightarrow> config \<Rightarrow> bool \<times> config" where
  "cache_configuration write_fails conf c =
     (let version = (case cfg_config_version conf of None \<Rightarrow> 1 | Some v \<Rightarrow> v)
      in if (case config_version c of None \<Rightarrow> False | Some cv \<Rightarrow> cv \<noteq> 0 \<and> version \<le> cv)
         then (True, c)
         else case save_event_config write_fails conf version c of
                (Inl e, c') \<Rightarrow> (False, c')
              | (Inr u, c') \<Rightarrow> (True, c'))"

text \<open>Remote commands. What each command needs from outside is in \<open>command_env\<close>.\<close>

record command =
  command_type :: "string option"
  firmware_url :: "string option"

record command_env =
  get_result :: "configuration option http_result"
  cache_write_fails :: bool
  restart_fails :: bool
  wipe_unlink_fails :: bool
  wipe_save_fails :: bool

datatype command_status = Completed | Failed

definition handle_config_refresh :: "command_env \<Rightarrow> config \<Rightarrow> command_status \<times> config" where
  "handle_config_refresh env c =
     (case fetch_configuration (get_result env) c of
        Some conf \<Rightarrow> (Completed, snd (cache_configuration (cache_write_fails env) conf c))
      | None \<Rightarrow> (Completed, c))"

definition handle_restart :: "command_env \<Rightarrow> command_status" where
  "handle_restart env = (if restart_fails env then Failed else Completed)"

definition handle_wipe :: "command_env \<Rightarrow> config \<Rightarrow> command_status \<times> config" where
  "handle_wipe env c =
     (case wipe_device_data (wipe_unlink_fails env) (wipe_save_fails env) c of
        (Inl e, c') \<Rightarrow> (Failed, c')
      | (Inr u, c') \<Rightarrow> (Completed, c'))"

definition handle_firmware_update :: "command \<Rightarrow> command_status" where
  "handle_firmware_update cmd = Failed"

definition process_command :: "command_env \<Rightarrow> command \<Rightarrow> config \<Rightarrow> command_status \<times> config" where
  "process_command env cmd c =
     (if command_type cmd = Some ''config_refresh'' then handle_config_refresh env c
      else if command_type cmd = Some ''restart'' then (handle_restart env, c)
      else if command_type cmd = Some ''wipe'' then handle_wipe env c
      else if command_type cmd = Some ''update_firmware'' then (handle_firmware_update cmd, c)
      else (Failed, c))"

text \<open>The loop over \<open>commands\<close>; the \<open>i\<close>-th command meets \<open>envs i\<close>.\<close>

fun process_commands :: "(nat \<Rightarrow> command_env) \<Rightarrow> nat \<Rightarrow> command list \<Rightarrow> config \<Rightarrow> config" where
  "process_commands envs i [] c = c"
| "process_commands envs i (cmd # cmds) c =
     process_commands envs (Suc i) cmds (snd (process_command (envs i) cmd c))"

text \<open>The heartbeat.\<close>

record heartbeat_data =
  data_device_token :: "string option"
  data_status :: "string option"
  data_configuration :: "configuration option"
  data_commands :: "command list"

record heartbeat_env =
  env_now :: datetime
  env_generated_serial :: string
  env_post :: "json \<Rightarrow> heartbeat_data http_result"
  env_token_save_fails :: bool
  env_revoke_unlink_fails :: bool
  env_revoke_save_fails :: bool
  env_ssid :: ssid_env
  env_ssid_save_fails :: bool
  env_commands :: "nat \<Rightarrow> command_env"

definition get_firmware_version :: string where
  "get_firmware_version = ''1.0.0''"

definition telemetry :: json where
  "telemetry =
     JObj [(''cpu_usage'', JFloat ''0.0''), (''memory_usage'', JFloat ''0.0''),
           (''disk_usage'', JFloat ''0.0''), (''wifi_client_count'', JInt 0),
           (''uptime_seconds'', JInt 0)]"

definition has_token :: "config \<Rightarrow> bool" where
  "has_token c = (device_token c \<noteq> None \<and> device_token c \<noteq> Some [])"

text \<open>
  The first half of \<open>send_heartbeat\<close>: the request body, and the configuration after
  \<open>get_serial_number\<close>.
\<close>

definition heartbeat_request ::
  "(string \<Rightarrow> string \<Rightarrow> string) \<Rightarrow> datetime \<Rightarrow> string \<Rightarrow> config \<Rightarrow> (exn + json) \<times> config" where
  "heartbeat_request hmac_sha256 now generated c =
     (let timestamp = get_timestamp now
      in if \<not> has_token c then
           (let (serial, c1) = get_serial_number generated c
            in (Inr (JObj [(''serial_number'', JStr serial),
                           (''firmware_version'', JStr get_firmware_version),
                           (''telemetry'', telemetry),
                           (''timestamp'', JStr timestamp)]), c1))
         else
           (let payload = JObj [(''device_token'',
                                   (case device_token c of None \<Rightarrow> JNull | Some t \<Rightarrow> JStr t)),
                                (''telemetry'', telemetry),
                                (''timestamp'', JStr timestamp)]
            in case sign_request hmac_sha256 c payload of
                 Inl e \<Rightarrow> (Inl e, c)
               | Inr signature \<Rightarrow> (Inr (dict_set payload ''signature'' (JStr signature)), c)))"

text \<open>The token of a 200 answer: first issue when there was none, rotation otherwise.\<close>

definition heartbeat_token ::
  "bool \<Rightarrow> bool \<Rightarrow> heartbeat_data \<Rightarrow> config \<Rightarrow> (exn + unit) \<times> config" where
  "heartbeat_token save_fails had_token resp c =
     (case data_device_token resp of
        None \<Rightarrow> (Inr (), c)
      | Some token \<Rightarrow>
          if \<not> had_token then
            (save_device_config save_fails (c\<lparr>device_token := Some token\<rparr>),
             c\<lparr>device_token := Some token\<rparr>)
          else if Some token \<noteq> device_token c then
            (save_device_config save_fails (c\<lparr>device_token := Some token\<rparr>),
             c\<lparr>device_token := Some token\<rparr>)
          else (Inr (), c))"

text \<open>The radio name of a 200 answer.\<close>

definition heartbeat_ssid ::
  "ssid_env \<Rightarrow> bool \<Rightarrow> heartbeat_data \<Rightarrow> config \<Rightarrow> string \<Rightarrow> (exn + unit) \<times> config \<times> string" where
  "heartbeat_ssid senv save_fails resp c file =
     (case data_configuration resp of
        None \<Rightarrow> (Inr (), c, file)
      | Some conf \<Rightarrow>
          (case cfg_wifi_ssid conf of
             None \<Rightarrow> (Inr (), c, file)
           | Some new_ssid \<Rightarrow>
               if Some new_ssid \<noteq> wifi_ssid c then
                 (case apply_ssid_configuration senv new_ssid file of
                    (True, file') \<Rightarrow>
                      (save_device_config save_fails (c\<lparr>wifi_ssid := Some new_ssid\<rparr>),
                       c\<lparr>wifi_ssid := Some new_ssid\<rparr>, file')
                  | (False, file') \<Rightarrow> (Inr (), c, file'))
               else (Inr (), c, file)))"

text \<open>
  The branch \<open>status_code == 200\<close>; every exception ends in the outer handler, which
  returns \<open>None\<close> and keeps what was changed before.
\<close>

definition heartbeat_ok ::
  "heartbeat_env \<Rightarrow> bool \<Rightarrow> heartbeat_data \<Rightarrow> config \<Rightarrow> string \<Rightarrow>
   heartbeat_data option \<times> config \<times> string" where
  "heartbeat_ok env had_token resp c file =
     (case heartbeat_token (env_token_save_fails env) had_token resp c of
        (Inl e, c1) \<Rightarrow> (None, c1, file)
      | (Inr u, c1) \<Rightarrow>
          if data_status resp = Some ''token_revoked'' then
            (None, snd (wipe_device_data (env_revoke_unlink_fails env)
                          (env_revoke_save_fails env) c1), file)
          else
            (case heartbeat_ssid (env_ssid env) (env_ssid_save_fails env) resp c1 file of
               (Inl e, c2, file') \<Rightarrow> (None, c2, file')
             | (Inr u', c2, file') \<Rightarrow>
                 (Some resp, process_commands (env_commands env) 0 (data_commands resp) c2,
                  file')))"

text \<open>
  \<open>send_heartbeat\<close>: the answer returned, the configuration and \<open>hostapd.conf\<close>
  afterwards. Status 401 and every other status but 200 are logged and give \<open>None\<close>.
\<close>

definition send_heartbeat ::
  "(string \<Rightarrow> string \<Rightarrow> string) \<Rightarrow> heartbeat_env \<Rightarrow> config \<Rightarrow> string \<Rightarrow>
   heartbeat_data option \<times> config \<times> string" where
  "send_heartbeat hmac_sha256 env c file =
     (case heartbeat_request hmac_sha256 (env_now env) (env_generated_serial env) c of
        (Inl e, c0) \<Rightarrow> (None, c0, file)
      | (Inr request_data, c0) \<Rightarrow>
          (case env_post env request_data of
             ConnectionError \<Rightarrow> (None, c0, file)
           | Response code body \<Rightarrow>
               if code = 200 then
                 (case body of
                    None \<Rightarrow> (None, c0, file)
                  | Some resp \<Rightarrow> heartbeat_ok env (has_token c) resp c0 file)
               else if code = 401 then (None, c0, file)
               else (None, c0, file)))"

section \<open>Example states\<close>

text \<open>Concrete inputs on which the theorems below are instantiated.\<close>

definition example_row :: "int \<Rightarrow> int \<Rightarrow> string \<Rightarrow> row" where
  "example_row i tv ts =
     \<lparr>item_id = i, item_type = tv, priority = tv, data = ''{}'', created_at = ts,
      retry_count = 0, last_retry_at = None\<rparr>"

definition example_db :: db where
  "example_db =
     \<lparr>rows = [example_row 1 2 ''2024-03-05T12:00:01Z'', example_row 2 2 ''2024-03-05T12:00:02Z'',
              example_row 3 1 ''2024-03-05T12:00:03Z''],
      seq = 3\<rparr>"

definition full_submissions :: db where
  "full_submissions =
     \<lparr>rows = map (\<lambda>i. example_row i 1 ''2024-03-05T12:00:01Z'') [1..1000], seq = 1000\<rparr>"


definition example_now :: datetime where
  "example_now =
     \<lparr>year = 2024, month = 3, day = 5, hour = 12, minute = 0, second = 7, microsecond = 0\<rparr>"

definition example_later :: datetime where
  "example_later =
     \<lparr>year = 2024, month = 4, day = 3, hour = 9, minute = 30, second = 0, microsecond = 0\<rparr>"

definition registered_config :: config where
  "registered_config =
     \<lparr>device_id = Some 7, device_serial = Some ''CS-SHAKA-V1-001'', device_token = Some ''T1'',
      backend_url = ''https://backend'', heartbeat_interval = 60,
      analytics_sync_interval = 120, event_config = None, config_version = None,
      wifi_ssid = Some ''EventNet1''\<rparr>"

definition example_configuration :: "int \<Rightarrow> string \<Rightarrow> configuration" where
  "example_configuration v rest =
     \<lparr>cfg_config_version = Some v, cfg_wifi_ssid = None, cfg_rest = rest\<rparr>"

definition example_data :: heartbeat_data where
  "example_data =
     \<lparr>data_device_token = None, data_status = None, data_configuration = None,
      data_commands = []\<rparr>"

definition example_ssid_env :: "restart_outcome \<Rightarrow> write_outcome \<Rightarrow> ssid_env" where
  "example_ssid_env restart rb =
     \<lparr>read_result = ReadOk, write_result = WriteOk, restart_result = restart,
      rollback_result = rb\<rparr>"

definition example_command_env :: command_env where
  "example_command_env =
     \<lparr>get_result = ConnectionError, cache_write_fails = False, restart_fails = False,
      wipe_unlink_fails = False, wipe_save_fails = False\<rparr>"

definition example_env :: "heartbeat_data http_result \<Rightarrow> ssid_env \<Rightarrow> heartbeat_env" where
  "example_env answer senv =
     \<lparr>env_now = example_now, env_generated_serial = ''CS-SHAKA-V1-042'',
      env_post = (\<lambda>request. answer), env_token_save_fails = False,
      env_revoke_unlink_fails = False, env_revoke_save_fails = False, env_ssid = senv,
      env_ssid_save_fails = False, env_commands = (\<lambda>i. example_command_env)\<rparr>"

definition example_hostapd :: string where
  "example_hostapd =
     ''interface=wlan0'' @ [CHR 0x0A] @ ''ssid=EventNet1'' @ [CHR 0x0A] @ ''channel=6''
     @ [CHR 0x0A]"




section \<open>Timestamps as texts\<close>














lemma div_div_10': "(a::int) div 10 div 100000 = a div 1000000"
  by (simp add: zdiv_zmult2_eq[symmetric])







section \<open>The order of a batch\<close>


















text \<open>
  Two remarks on the query. A negative batch size selects the whole queue. The order
  of \<open>created_at\<close> is the order of the timestamp texts: a timestamp taken at a whole
  second prints without a fraction and is above the later ones of that second.
\<close>

lemma select_batch_negative:
  "batch_size < 0 \<Longrightarrow>
   select_batch batch_size rs = sort_key (\<lambda>r. (priority r, created_at r)) rs"
  by (simp add: select_batch_def)


section \<open>The queue invariant is preserved\<close>

lemma queue_inv_empty: "queue_inv empty_db"
  by (simp add: queue_inv_def empty_db_def)

lemma queue_inv_insert_row: "queue_inv d \<Longrightarrow> queue_inv (insert_row tv p ts d)"
  by (fastforce simp: queue_inv_def insert_row_def)

lemma queue_inv_filter: "queue_inv d \<Longrightarrow> queue_inv (d\<lparr>rows := filter P (rows d)\<rparr>)"
  by (simp add: queue_inv_def distinct_map_filter)

lemma queue_inv_drop_oldest: "queue_inv d \<Longrightarrow> queue_inv (drop_oldest_analytics f d)"
  by (simp add: drop_oldest_analytics_def queue_inv_filter split: option.splits)

lemma queue_inv_enqueue_analytics:
  "queue_inv d \<Longrightarrow> queue_inv (snd (enqueue_analytics cf df ins now r d))"
  by (simp add: enqueue_analytics_def Let_def queue_inv_insert_row queue_inv_drop_oldest)

lemma queue_inv_enqueue_submission:
  "queue_inv d \<Longrightarrow> queue_inv (snd (enqueue_submission cf ins now r d))"
  by (simp add: enqueue_submission_def queue_inv_insert_row)

lemma queue_inv_mark_synced: "queue_inv d \<Longrightarrow> queue_inv (snd (mark_synced f ids d))"
  by (simp add: mark_synced_def queue_inv_filter)

lemma queue_inv_mark_failed: "queue_inv d \<Longrightarrow> queue_inv (snd (mark_failed f now ids d))"
proof -
  assume inv: "queue_inv d"
  let ?g = "\<lambda>r. if item_id r \<in> set ids
                 then r\<lparr>retry_count := retry_count r + 1,
                        last_retry_at := Some (get_timestamp now)\<rparr>
                 else r"
  have "map (\<lambda>r. item_id (?g r)) (rows d) = map item_id (rows d)"
    by (rule map_cong[OF refl]) simp
  then have ids: "map item_id (map ?g (rows d)) = map item_id (rows d)"
    by (simp only: map_map o_def)
  have dist: "distinct (map item_id (map ?g (rows d)))"
    unfolding ids using inv by (simp add: queue_inv_def)
  have "\<forall>r\<in>set (map ?g (rows d)). item_id r \<le> seq d \<and> priority r = item_type r"
    using inv by (auto simp: queue_inv_def)
  with dist have "queue_inv (d\<lparr>rows := map ?g (rows d)\<rparr>)"
    unfolding queue_inv_def by (simp del: map_map set_map)
  with inv show ?thesis by (simp add: mark_failed_def)
qed

lemma queue_inv_cleanup: "queue_inv d \<Longrightarrow> queue_inv (snd (cleanup_old_records f now days d))"
  by (simp add: cleanup_old_records_def queue_inv_filter split: sum.splits)

section \<open>Enqueueing a submission at capacity\<close>

lemma full_submissions_count:
  "count_type (type_value PORTAL_SUBMISSION) full_submissions = 1000"
  by (simp add: count_type_def full_submissions_def example_row_def filter_map o_def)

lemma enqueue_submission_count_fails:
  "enqueue_submission True False now submission d =
     (Inr (), \<lparr>rows = rows d @ [\<lparr>item_id = seq d + 1,
                               item_type = type_value PORTAL_SUBMISSION,
                               priority = type_value PORTAL_SUBMISSION, data = submission,
                               created_at = get_timestamp now, retry_count = 0,
                               last_retry_at = None\<rparr>],
               seq = seq d + 1\<rparr>)"
  by (simp add: enqueue_submission_def get_submission_count_def MAX_SUBMISSIONS_def
      insert_row_def)

lemma enqueue_submission_inserts:
  assumes "get_submission_count count_fails d < MAX_SUBMISSIONS"
  shows "enqueue_submission count_fails False now submission d =
     (Inr (), \<lparr>rows = rows d @ [\<lparr>item_id = seq d + 1,
                               item_type = type_value PORTAL_SUBMISSION,
                               priority = type_value PORTAL_SUBMISSION, data = submission,
                               created_at = get_timestamp now, retry_count = 0,
                               last_retry_at = None\<rparr>],
               seq = seq d + 1\<rparr>)"
  using assms by (simp add: enqueue_submission_def insert_row_def)

text \<open>
  Counterexample to C5: the queue holds 1000 submissions and the count query raises;
  \<open>_get_submission_count\<close> answers 0, the submission is inserted and the call returns
  normally with 1001 submissions queued.
\<close>

theorem enqueue_submission_full_counterexample:
  "MAX_SUBMISSIONS \<le> count_type (type_value PORTAL_SUBMISSION) full_submissions \<and>
   fst (enqueue_submission True False example_now ''{}'' full_submissions) = Inr () \<and>
   count_type (type_value PORTAL_SUBMISSION)
     (snd (enqueue_submission True False example_now ''{}'' full_submissions)) = 1001"
proof -
  have "count_type (type_value PORTAL_SUBMISSION)
     (snd (enqueue_submission True False example_now ''{}'' full_submissions))
     = count_type (type_value PORTAL_SUBMISSION) full_submissions + 1"
    by (simp add: enqueue_submission_count_fails count_type_def)
  then have more: "count_type (type_value PORTAL_SUBMISSION)
     (snd (enqueue_submission True False example_now ''{}'' full_submissions)) = 1001"
    by (simp only: full_submissions_count)
  have full: "MAX_SUBMISSIONS \<le> count_type (type_value PORTAL_SUBMISSION) full_submissions"
    unfolding full_submissions_count by (simp add: MAX_SUBMISSIONS_def)
  have ok: "fst (enqueue_submission True False example_now ''{}'' full_submissions) = Inr ()"
    by (simp add: enqueue_submission_count_fails)
  show ?thesis by (intro conjI) (rule full ok more)+
qed

text \<open>
  Claim C5, amended. When the count query succeeds and finds at least \<open>MAX_SUBMISSIONS\<close>
  submissions, \<open>enqueue_submission\<close> raises \<open>ValueError('Submission queue full')\<close> and the
  database, hence every count, is as before.
\<close>

theorem enqueue_submission_full:
  assumes "MAX_SUBMISSIONS \<le> count_type (type_value PORTAL_SUBMISSION) d"
  shows "enqueue_submission False insert_fails now submission d =
           (Inl (ValueError ''Submission queue full''), d)"
  using assms by (simp add: enqueue_submission_def get_submission_count_def)

text \<open>Witness for C5: a queue of 1000 submissions.\<close>

theorem enqueue_submission_full_witness:
  "MAX_SUBMISSIONS \<le> count_type (type_value PORTAL_SUBMISSION) full_submissions \<and>
   enqueue_submission False False example_now ''{}'' full_submissions =
     (Inl (ValueError ''Submission queue full''), full_submissions)"
proof -
  have h: "MAX_SUBMISSIONS \<le> count_type (type_value PORTAL_SUBMISSION) full_submissions"
    unfolding full_submissions_count by (simp add: MAX_SUBMISSIONS_def)
  from h enqueue_submission_full[OF h] show ?thesis by simp
qed

section \<open>Enqueueing an analytics record\<close>

















section \<open>Storage errors\<close>

text \<open>
  Counterexample to C7: with a failing database, \<open>mark_synced [1]\<close> and \<open>mark_failed [1]\<close>
  return normally, and row 1 is still queued with its retry count 0.
\<close>

theorem mark_synced_swallows_counterexample:
  "fst (mark_synced True [1] example_db) = Inr () \<and>
   item_id (hd (rows (snd (mark_synced True [1] example_db)))) = 1 \<and>
   fst (mark_failed True example_now [1] example_db) = Inr () \<and>
   item_id (hd (rows (snd (mark_failed True example_now [1] example_db)))) = 1 \<and>
   retry_count (hd (rows (snd (mark_failed True example_now [1] example_db)))) = 0"
  by (simp add: mark_synced_def mark_failed_def example_db_def example_row_def)

text \<open>
  Claim C7, amended. A database error in the insert of either \<open>enqueue\<close> method reaches
  the caller and nothing is inserted. A database error in \<open>mark_synced\<close> or \<open>mark_failed\<close>
  is swallowed: the call returns normally and the database is unchanged. Without an error
  the rows are deleted, respectively their retry count raised by one.
\<close>

theorem storage_errors:
  "(get_submission_count count_fails d < MAX_SUBMISSIONS \<longrightarrow>
      enqueue_submission count_fails True now payload d = (Inl DatabaseError, d)) \<and>
   fst (enqueue_analytics count_fails drop_fails True now payload d) = Inl DatabaseError \<and>
   set (rows (snd (enqueue_analytics count_fails drop_fails True now payload d)))
     \<subseteq> set (rows d) \<and>
   mark_synced True ids d = (Inr (), d) \<and>
   mark_failed True now ids d = (Inr (), d) \<and>
   mark_synced False ids d =
     (Inr (), d\<lparr>rows := filter (\<lambda>r. item_id r \<notin> set ids) (rows d)\<rparr>) \<and>
   mark_failed False now ids d =
     (Inr (), d\<lparr>rows := map (\<lambda>r. if item_id r \<in> set ids
                                  then r\<lparr>retry_count := retry_count r + 1,
                                         last_retry_at := Some (get_timestamp now)\<rparr>
                                  else r) (rows d)\<rparr>)"
proof (intro conjI impI)
  assume "get_submission_count count_fails d < MAX_SUBMISSIONS"
  then show "enqueue_submission count_fails True now payload d = (Inl DatabaseError, d)"
    by (simp add: enqueue_submission_def)
next
  show "fst (enqueue_analytics count_fails drop_fails True now payload d) = Inl DatabaseError"
    by (simp add: enqueue_analytics_def Let_def)
next
  show "set (rows (snd (enqueue_analytics count_fails drop_fails True now payload d)))
          \<subseteq> set (rows d)"
    by (auto simp: enqueue_analytics_def Let_def drop_oldest_analytics_def split: option.splits)
next
  show "mark_synced True ids d = (Inr (), d)" by (simp add: mark_synced_def)
next
  show "mark_failed True now ids d = (Inr (), d)" by (simp add: mark_failed_def)
next
  show "mark_synced False ids d =
     (Inr (), d\<lparr>rows := filter (\<lambda>r. item_id r \<notin> set ids) (rows d)\<rparr>)"
    by (simp add: mark_synced_def)
next
  show "mark_failed False now ids d =
     (Inr (), d\<lparr>rows := map (\<lambda>r. if item_id r \<in> set ids
                                  then r\<lparr>retry_count := retry_count r + 1,
                                         last_retry_at := Some (get_timestamp now)\<rparr>
                                  else r) (rows d)\<rparr>)"
    by (simp add: mark_failed_def)
qed

text \<open>Witness for C7: the small queue is below the submission limit.\<close>

theorem storage_errors_witness:
  "get_submission_count False example_db < MAX_SUBMISSIONS \<and>
   enqueue_submission False True example_now ''{}'' example_db = (Inl DatabaseError, example_db)"
proof -
  have h: "get_submission_count False example_db < MAX_SUBMISSIONS"
    by (simp add: get_submission_count_def count_type_def example_db_def example_row_def
        MAX_SUBMISSIONS_def)
  from storage_errors[of False example_db example_now "''{}''"] h show ?thesis by blast
qed

section \<open>Cleaning up old records\<close>

text \<open>
  Claim C9 fails on the code: on 2024-04-03 with 7 days of retention, \<open>replace(day=-4)\<close>
  raises, and \<open>cleanup_old_records\<close> returns 0 and deletes nothing, although every row is
  older than 2024-03-27.
\<close>

theorem cleanup_old_records_month_start:
  "cleanup_old_records False example_later 7 example_db = (0, example_db) \<and>
   list_all (\<lambda>r. created_at r < ''2024-03-27T00:00:00Z'') (rows example_db)"
  by (simp add: cleanup_old_records_def cutoff_str_def replace_day_def midnight_def
      example_later_def days_in_month_def example_db_def example_row_def)

lemma cleanup_old_records_cutoff:
  assumes "cutoff_str now days = Inr c"
  shows "cleanup_old_records False now days d =
           (int (length (filter (\<lambda>r. created_at r < c) (rows d))),
            d\<lparr>rows := filter (\<lambda>r. \<not> created_at r < c) (rows d)\<rparr>)"
  using assms by (simp add: cleanup_old_records_def)

lemma d2_zero: "d2 0 = ''00''"
  by code_simp

lemma cutoff_str_in_month:
  assumes "1 \<le> day now - days" "day now - days \<le> days_in_month (year now) (month now)"
  shows "cutoff_str now days =
           Inr (d4 (year now) @ ''-'' @ d2 (month now) @ ''-'' @ d2 (day now - days)
                @ ''T00:00:00Z'')"
  using assms
  by (simp add: cutoff_str_def replace_day_def midnight_def isoformat_def d2_zero)

lemma cutoff_str_out_of_month:
  assumes "day now - days < 1 \<or> days_in_month (year now) (month now) < day now - days"
  shows "cleanup_old_records delete_fails now days d = (0, d)"
  using assms
  by (auto simp: cleanup_old_records_def cutoff_str_def replace_day_def midnight_def)

section \<open>Caching a configuration\<close>

lemma cache_configuration_older:
  assumes "config_version c = Some cv" "cv \<noteq> 0"
    and "(case cfg_config_version conf of None \<Rightarrow> 1 | Some v \<Rightarrow> v) \<le> cv"
  shows "cache_configuration write_fails conf c = (True, c)"
  using assms by (simp add: cache_configuration_def)

lemma cache_configuration_zero:
  assumes "config_version c = Some 0"
  shows "cache_configuration False conf c =
           (True, c\<lparr>event_config := Some conf,
                    config_version :=
                      Some (case cfg_config_version conf of None \<Rightarrow> 1 | Some v \<Rightarrow> v)\<rparr>)"
  using assms by (simp add: cache_configuration_def save_event_config_def)

text \<open>
  Claim C10 fails on the code: with version 0 cached, a configuration of version -1
  replaces it and the stored version decreases; one of version 0 replaces the cached
  configuration.
\<close>

theorem cache_configuration_version_zero:
  "cache_configuration False (example_configuration (- 1) ''B'')
     (registered_config\<lparr>event_config := Some (example_configuration 0 ''A''),
                        config_version := Some 0\<rparr>)
   = (True, registered_config\<lparr>event_config := Some (example_configuration (- 1) ''B''),
                              config_version := Some (- 1)\<rparr>) \<and>
   cache_configuration False (example_configuration 0 ''B'')
     (registered_config\<lparr>event_config := Some (example_configuration 0 ''A''),
                        config_version := Some 0\<rparr>)
   = (True, registered_config\<lparr>event_config := Some (example_configuration 0 ''B''),
                              config_version := Some 0\<rparr>)"
  by (simp add: cache_configuration_def save_event_config_def example_configuration_def)

section \<open>Registration\<close>

lemma has_token_is_registered: "has_token c \<Longrightarrow> is_registered c"
  by (simp add: has_token_def is_registered_def)

lemma wipe_device_data_token:
  "device_token (snd (wipe_device_data u s c)) = None \<and>
   device_id (snd (wipe_device_data u s c)) = None \<and>
   device_serial (snd (wipe_device_data u s c)) = device_serial c \<and>
   wifi_ssid (snd (wipe_device_data u s c)) = wifi_ssid c \<and>
   (\<not> u \<longrightarrow> event_config (snd (wipe_device_data u s c)) = None \<and>
            config_version (snd (wipe_device_data u s c)) = None)"
  by (simp add: wipe_device_data_def clear_event_config_def Let_def)

text \<open>
  Claim C8 fails on the code: an unregistered device that is answered the empty token
  stores it; then \<open>is_registered\<close> holds although the credential is empty and
  \<open>send_heartbeat\<close> treats the device as having no token.
\<close>

theorem is_registered_empty_token:
  "(case send_heartbeat hmac_sha256
           (example_env (Response 200 (Some (example_data\<lparr>data_device_token := Some []\<rparr>)))
              (example_ssid_env (Returncode 0) WriteOk))
           (init_config ''https://backend'') example_hostapd of
      (answer, c, file) \<Rightarrow> device_token c = Some [] \<and> is_registered c \<and> \<not> has_token c)"
  by (simp add: send_heartbeat_def heartbeat_request_def has_token_def init_config_def
      get_serial_number_def example_env_def example_data_def heartbeat_ok_def
      heartbeat_token_def save_device_config_def heartbeat_ssid_def is_registered_def Let_def)

section \<open>Revocation\<close>

lemma registered_config_has_token: "has_token registered_config"
  by (simp add: has_token_def registered_config_def)

lemma heartbeat_request_registered:
  assumes "has_token c"
  shows "\<exists>body. heartbeat_request hmac_sha256 now generated c = (Inr body, c)"
  using assms
  by (auto simp: heartbeat_request_def has_token_def sign_request_def Let_def
      split: option.splits)

lemma send_heartbeat_401:
  assumes "has_token c" "env_post env = (\<lambda>request. Response 401 body)"
  shows "send_heartbeat hmac_sha256 env c file = (None, c, file)"
proof -
  from heartbeat_request_registered[OF assms(1)] obtain b where
    "heartbeat_request hmac_sha256 (env_now env) (env_generated_serial env) c = (Inr b, c)"
    by blast
  with assms(2) show ?thesis by (simp add: send_heartbeat_def)
qed

text \<open>
  Claim C2 fails on the code: a registered device that is answered status 401 returns
  \<open>None\<close> and keeps its configuration, credential included.
\<close>

theorem send_heartbeat_401_keeps_token:
  "has_token registered_config \<and>
   send_heartbeat hmac_sha256
     (example_env (Response 401 None) (example_ssid_env (Returncode 0) WriteOk))
     registered_config example_hostapd
   = (None, registered_config, example_hostapd)"
proof -
  have "env_post (example_env (Response 401 None) (example_ssid_env (Returncode 0) WriteOk))
        = (\<lambda>request. Response 401 None)"
    by (simp add: example_env_def)
  from send_heartbeat_401[OF registered_config_has_token this] registered_config_has_token
  show ?thesis by simp
qed

lemma heartbeat_token_saved:
  "\<exists>c1. heartbeat_token False had resp c = (Inr (), c1) \<and>
         device_serial c1 = device_serial c"
  by (simp add: heartbeat_token_def save_device_config_def split: option.splits)

lemma send_heartbeat_revoked:
  assumes tok: "has_token c"
    and post: "env_post env = (\<lambda>request. Response 200 (Some resp))"
    and st: "data_status resp = Some ''token_revoked''"
    and sv: "\<not> env_token_save_fails env"
  shows "\<exists>c'. send_heartbeat hmac_sha256 env c file = (None, c', file) \<and>
              device_token c' = None \<and> device_id c' = None \<and>
              device_serial c' = device_serial c \<and> \<not> has_token c' \<and> \<not> is_registered c' \<and>
              (\<not> env_revoke_unlink_fails env \<longrightarrow>
                 event_config c' = None \<and> config_version c' = None)"
proof -
  from heartbeat_request_registered[OF tok] obtain b where
    rq: "heartbeat_request hmac_sha256 (env_now env) (env_generated_serial env) c = (Inr b, c)"
    by blast
  from sv heartbeat_token_saved[of True resp c]
  obtain c1 where t: "heartbeat_token (env_token_save_fails env) True resp c = (Inr (), c1)"
    and s1: "device_serial c1 = device_serial c"
    by auto
  let ?c' = "snd (wipe_device_data (env_revoke_unlink_fails env) (env_revoke_save_fails env) c1)"
  have run: "send_heartbeat hmac_sha256 env c file = (None, ?c', file)"
    using rq post t st tok by (simp add: send_heartbeat_def heartbeat_ok_def)
  show ?thesis
    apply (intro exI[of _ ?c'] conjI)
    using run s1 wipe_device_data_token[of "env_revoke_unlink_fails env"
        "env_revoke_save_fails env" c1]
    by (simp_all add: has_token_def is_registered_def)
qed

section \<open>The signed heartbeat\<close>

lemma dec_zero: "dec 0 = ''0''"
  by code_simp

lemma dumps_telemetry:
  "dumps telemetry =
     ''{'' @ quote ''cpu_usage'' @ '':0.0,'' @ quote ''disk_usage'' @ '':0.0,''
     @ quote ''memory_usage'' @ '':0.0,'' @ quote ''uptime_seconds'' @ '':0,''
     @ quote ''wifi_client_count'' @ '':0}''"
  by (simp add: telemetry_def int_repr_def dec_zero)

lemma dumps_payload:
  "dumps (JObj [(''device_token'', JStr t), (''telemetry'', telemetry), (''timestamp'', JStr ts)])
   = ''{'' @ quote ''device_token'' @ '':'' @ quote t @ '','' @ quote ''telemetry'' @ '':''
     @ dumps telemetry @ '','' @ quote ''timestamp'' @ '':'' @ quote ts @ ''}''"
  by simp

text \<open>
  Claim C4. Without a token the heartbeat body has the keys \<open>serial_number\<close>,
  \<open>firmware_version\<close>, \<open>telemetry\<close>, \<open>timestamp\<close>: neither a signature nor a token. With
  a token \<open>t\<close> the body carries \<open>device_token = t\<close> and
  \<open>signature = hmac_sha256 t (dumps (body without signature))\<close>, and that text has its keys
  in lexicographic order with no space between tokens.
\<close>

theorem heartbeat_request_signature:
  "(\<not> has_token c \<longrightarrow>
      (\<exists>body c'. heartbeat_request hmac_sha256 now generated c = (Inr body, c') \<and>
         dict_keys body = [''serial_number'', ''firmware_version'', ''telemetry'', ''timestamp''] \<and>
         ''signature'' \<notin> set (dict_keys body) \<and> ''device_token'' \<notin> set (dict_keys body))) \<and>
   (has_token c \<longrightarrow>
      (\<exists>body t. device_token c = Some t \<and>
         heartbeat_request hmac_sha256 now generated c = (Inr body, c) \<and>
         dict_get body ''device_token'' = Some (JStr t) \<and>
         dict_get body ''signature'' =
           Some (JStr (hmac_sha256 t (dumps (dict_del body ''signature'')))) \<and>
         dumps (dict_del body ''signature'') =
           ''{'' @ quote ''device_token'' @ '':'' @ quote t @ '','' @ quote ''telemetry'' @ '':''
           @ ''{'' @ quote ''cpu_usage'' @ '':0.0,'' @ quote ''disk_usage'' @ '':0.0,''
           @ quote ''memory_usage'' @ '':0.0,'' @ quote ''uptime_seconds'' @ '':0,''
           @ quote ''wifi_client_count'' @ '':0}''
           @ '','' @ quote ''timestamp'' @ '':'' @ quote (get_timestamp now) @ ''}''))"
proof (intro conjI impI)
  assume "\<not> has_token c"
  then show "\<exists>body c'. heartbeat_request hmac_sha256 now generated c = (Inr body, c') \<and>
         dict_keys body = [''serial_number'', ''firmware_version'', ''telemetry'', ''timestamp''] \<and>
         ''signature'' \<notin> set (dict_keys body) \<and> ''device_token'' \<notin> set (dict_keys body)"
    by (simp add: heartbeat_request_def Let_def dict_keys_def split: prod.splits)
next
  assume "has_token c"
  then obtain t where t: "device_token c = Some t" "t \<noteq> []"
    by (auto simp: has_token_def)
  let ?payload = "JObj [(''device_token'', JStr t), (''telemetry'', telemetry),
                        (''timestamp'', JStr (get_timestamp now))]"
  let ?body = "dict_set ?payload ''signature'' (JStr (hmac_sha256 t (dumps ?payload)))"
  have run: "heartbeat_request hmac_sha256 now generated c = (Inr ?body, c)"
    using t \<open>has_token c\<close> by (simp add: heartbeat_request_def sign_request_def Let_def)
  have del: "dict_del ?body ''signature'' = ?payload"
    by (simp add: dict_set_def dict_del_def)
  have tok: "dict_get ?body ''device_token'' = Some (JStr t)"
    by (simp add: dict_set_def dict_get_def)
  have sig: "dict_get ?body ''signature'' = Some (JStr (hmac_sha256 t (dumps ?payload)))"
    by (simp add: dict_set_def dict_get_def)
  have canon: "dumps ?payload =
           ''{'' @ quote ''device_token'' @ '':'' @ quote t @ '','' @ quote ''telemetry'' @ '':''
           @ ''{'' @ quote ''cpu_usage'' @ '':0.0,'' @ quote ''disk_usage'' @ '':0.0,''
           @ quote ''memory_usage'' @ '':0.0,'' @ quote ''uptime_seconds'' @ '':0,''
           @ quote ''wifi_client_count'' @ '':0}''
           @ '','' @ quote ''timestamp'' @ '':'' @ quote (get_timestamp now) @ ''}''"
    unfolding dumps_payload dumps_telemetry by simp
  show "\<exists>body t. device_token c = Some t \<and>
         heartbeat_request hmac_sha256 now generated c = (Inr body, c) \<and>
         dict_get body ''device_token'' = Some (JStr t) \<and>
         dict_get body ''signature'' =
           Some (JStr (hmac_sha256 t (dumps (dict_del body ''signature'')))) \<and>
         dumps (dict_del body ''signature'') =
           ''{'' @ quote ''device_token'' @ '':'' @ quote t @ '','' @ quote ''telemetry'' @ '':''
           @ ''{'' @ quote ''cpu_usage'' @ '':0.0,'' @ quote ''disk_usage'' @ '':0.0,''
           @ quote ''memory_usage'' @ '':0.0,'' @ quote ''uptime_seconds'' @ '':0,''
           @ quote ''wifi_client_count'' @ '':0}''
           @ '','' @ quote ''timestamp'' @ '':'' @ quote (get_timestamp now) @ ''}''"
    apply (intro exI[of _ ?body] exI[of _ t] conjI)
    using t(1) run tok sig canon unfolding del by simp_all
qed

lemma init_config_no_token: "\<not> has_token (init_config u)"
  by (simp add: has_token_def init_config_def)

text \<open>
  Witness for C4: the initial configuration and a registered one, with concatenation in
  place of the HMAC.
\<close>

theorem heartbeat_request_signature_witness:
  "\<not> has_token (init_config ''https://backend'') \<and>
   (\<exists>body c'. heartbeat_request (\<lambda>k m. k @ m) example_now ''CS-SHAKA-V1-042''
                 (init_config ''https://backend'') = (Inr body, c') \<and>
        ''signature'' \<notin> set (dict_keys body) \<and> ''device_token'' \<notin> set (dict_keys body)) \<and>
   has_token registered_config \<and>
   (\<exists>body t. device_token registered_config = Some t \<and>
        heartbeat_request (\<lambda>k m. k @ m) example_now ''CS-SHAKA-V1-042'' registered_config
          = (Inr body, registered_config) \<and>
        dict_get body ''signature'' = Some (JStr (t @ dumps (dict_del body ''signature''))))"
  using heartbeat_request_signature[of "init_config ''https://backend''" "\<lambda>k m. k @ m"
      example_now "''CS-SHAKA-V1-042''"]
    heartbeat_request_signature[of registered_config "\<lambda>k m. k @ m"
      example_now "''CS-SHAKA-V1-042''"]
    init_config_no_token[of "''https://backend''"] registered_config_has_token
  by blast

section \<open>Applying a radio name\<close>








lemma apply_ssid_write_error:
  assumes "read_result env = ReadOk" "\<exists>line\<in>set (readlines file). is_ssid_line line"
    and "write_result env = WriteError partial"
  shows "apply_ssid_configuration env ssid file = (False, partial)"
  using assms by (auto simp: apply_ssid_configuration_def Let_def)







lemma process_command_wifi_ssid: "wifi_ssid (snd (process_command env cmd c)) = wifi_ssid c"
  by (simp add: process_command_def handle_config_refresh_def handle_wipe_def
      cache_configuration_def save_event_config_def wipe_device_data_def
      clear_event_config_def Let_def split: option.splits prod.splits sum.splits)

lemma process_commands_wifi_ssid: "wifi_ssid (process_commands envs i cmds c) = wifi_ssid c"
  by (induction cmds arbitrary: i c) (simp_all add: process_command_wifi_ssid)

end
